theory Spec2Isabelle
  imports Main
begin

section \<open>The values of the host language\<close>

text \<open>
  \<open>oc(data, parentKey)\<close> of \<open>index.js\<close> wraps any JavaScript value. A value is a
  primitive or a reference to an object of the heap; the objects are mutable and may be
  shared, so a handle that closes over \<open>data\<close> closes over a reference, and every
  property read is a read of the heap at the moment of the read.

  Numbers are carried as integers: the program never computes with a number, and the only
  numbers it can produce that are not already in the data are lengths of arrays.
  A property key is a string or a symbol (an array index is the decimal string of the
  index); a symbol is its identity and its description.
\<close>

datatype key = KStr string | KSym nat string

type_synonym addr = nat

datatype jsval =
    JUndefined
  | JNull
  | JBool bool
  | JNum int
  | JStr string
  | JSym nat string
  | JRef addr

text \<open>
  An object is a keyed mapping, a sequence (its elements, and the named properties it has
  besides) or a function. The property list of an object holds the data properties a read
  can see, the object's own before the inherited ones, so that a read is the first entry
  for the key. This is the data of the specification: a tree of mappings, sequences and
  primitives. Properties whose read runs code of the data (accessor properties, the traps
  of a proxy) are not in the lists; they are the accessors of a \<open>host\<close>, below.
\<close>

datatype obj =
    Plain "(key \<times> jsval) list"
  | Array "jsval list" "(key \<times> jsval) list"
  | Function "(key \<times> jsval) list"

type_synonym heap = "addr \<Rightarrow> obj"

datatype fault = Error string | TypeError

subsection \<open>Decimal strings\<close>

definition digit :: "nat \<Rightarrow> char" where
  "digit d = ''0123456789'' ! d"

function show_nat :: "nat \<Rightarrow> string" where
  "show_nat n = (if n < 10 then [digit n] else show_nat (n div 10) @ [digit (n mod 10)])"
  by pat_completeness auto
termination
  by (relation "measure id") auto

declare show_nat.simps [simp del]

subsection \<open>\<open>typeof\<close>, \<open>== null\<close> and the property read \<open>obj[key]\<close>\<close>

fun js_typeof :: "heap \<Rightarrow> jsval \<Rightarrow> string" where
  "js_typeof \<sigma> JUndefined = ''undefined''"
| "js_typeof \<sigma> JNull = ''object''"
| "js_typeof \<sigma> (JBool b) = ''boolean''"
| "js_typeof \<sigma> (JNum n) = ''number''"
| "js_typeof \<sigma> (JStr s) = ''string''"
| "js_typeof \<sigma> (JSym i d) = ''symbol''"
| "js_typeof \<sigma> (JRef a) = (case \<sigma> a of Function ps \<Rightarrow> ''function'' | _ \<Rightarrow> ''object'')"

text \<open>\<open>v == null\<close> holds of \<open>null\<close> and of \<open>undefined\<close>, and of nothing else.\<close>

fun eq_null :: "jsval \<Rightarrow> bool" where
  "eq_null JUndefined = True"
| "eq_null JNull = True"
| "eq_null v = False"

definition prop_value :: "(key \<times> jsval) list \<Rightarrow> key \<Rightarrow> jsval" where
  "prop_value ps k = (case map_of ps k of Some v \<Rightarrow> v | None \<Rightarrow> JUndefined)"

text \<open>The index a key denotes in a sequence of \<open>n\<close> elements, if it denotes one.\<close>

definition array_index :: "key \<Rightarrow> nat \<Rightarrow> nat option" where
  "array_index k n = (case k of KStr s \<Rightarrow> List.find (\<lambda>i. show_nat i = s) [0..<n] | KSym i d \<Rightarrow> None)"

fun obj_get :: "obj \<Rightarrow> key \<Rightarrow> jsval" where
  "obj_get (Plain ps) k = prop_value ps k"
| "obj_get (Function ps) k = prop_value ps k"
| "obj_get (Array xs ps) k =
     (if k = KStr ''length'' then JNum (int (length xs))
      else case array_index k (length xs) of Some i \<Rightarrow> xs ! i | None \<Rightarrow> prop_value ps k)"

text \<open>
  A string has its length and its characters; the methods a primitive inherits are left
  out, the program reads no property of a primitive.
\<close>

fun prim_get :: "jsval \<Rightarrow> key \<Rightarrow> jsval" where
  "prim_get (JStr s) k =
     (if k = KStr ''length'' then JNum (int (length s))
      else case array_index k (length s) of Some i \<Rightarrow> JStr [s ! i] | None \<Rightarrow> JUndefined)"
| "prim_get v k = JUndefined"

text \<open>
  \<open>obj[key]\<close> where the property is a data property: reading a property of \<open>null\<close>
  or \<open>undefined\<close> throws a TypeError, every other read gives a value and runs no code.
\<close>

fun get_prop :: "heap \<Rightarrow> jsval \<Rightarrow> key \<Rightarrow> fault + jsval" where
  "get_prop \<sigma> JUndefined k = Inl TypeError"
| "get_prop \<sigma> JNull k = Inl TypeError"
| "get_prop \<sigma> (JRef a) k = Inr (obj_get (\<sigma> a) k)"
| "get_prop \<sigma> v k = Inr (prim_get v k)"

section \<open>The traversal wrapper \<open>oc\<close>\<close>

text \<open>
  \<open>parentKey\<close> is optional and is a string, a number or a symbol; the lookup passes
  the key it was asked for. \<open>String(parentKey)\<close> renders it for the error message, and
  the program does nothing else with it: a number given as label is held as the text
  \<open>String\<close> gives for it.
\<close>

datatype label = NoLabel | LKey key | LNum string

fun String_label :: "label \<Rightarrow> string" where
  "String_label NoLabel = ''undefined''"
| "String_label (LKey (KStr s)) = s"
| "String_label (LKey (KSym i d)) = ''Symbol('' @ d @ '')''"
| "String_label (LNum s) = s"

text \<open>
  \<open>oc(data, parentKey)\<close> returns a proxy that closes over its two arguments and has no
  other state: the handle is the pair.
\<close>

record handle =
  data :: jsval
  parentKey :: label

definition oc :: "jsval \<Rightarrow> label \<Rightarrow> handle" where
  "oc d pk = \<lparr>data = d, parentKey = pk\<rparr>"

text \<open>
  What a property read of a handle gives: a handle again, or, for the key \<open>_err\<close>, the
  strict-check function of the handle that was read.
\<close>

datatype member = Handle handle | StrictCheck handle

fun handle_of :: "member \<Rightarrow> handle" where
  "handle_of (Handle h) = h"
| "handle_of (StrictCheck h) = h"

text \<open>
  The proxy's target, \<open>function (defaultValue) { return data == null ? defaultValue : data; }\<close>.
  A call with no argument is the call with \<open>undefined\<close>.
\<close>

definition target :: "handle \<Rightarrow> jsval \<Rightarrow> jsval" where
  "target h defaultValue = (if eq_null (data h) then defaultValue else data h)"

text \<open>
  The function returned for \<open>_err\<close>. Its argument is declared \<open>errMsg?: string\<close>;
  \<open>errorMsg || ...\<close> takes the generated message when \<open>errorMsg\<close> is falsy, which
  for a string is when it is empty.
\<close>

definition err :: "handle \<Rightarrow> string option \<Rightarrow> fault + jsval" where
  "err h errorMsg =
     (if eq_null (data h) then
        Inl (Error (case errorMsg of
                      Some m \<Rightarrow> if m \<noteq> [] then m else String_label (parentKey h) @ '' is not set''
                    | None \<Rightarrow> String_label (parentKey h) @ '' is not set''))
      else Inr (data h))"

text \<open>
  The \<open>get\<close> trap, on data: the read \<open>obj[key]\<close> is the read of a data property.
  It runs in the heap and hands the heap on.
\<close>

definition get :: "handle \<Rightarrow> key \<Rightarrow> heap \<Rightarrow> (fault + member) \<times> heap" where
  "get h k \<sigma> =
     (if k = KStr ''_err'' then (Inr (StrictCheck h), \<sigma>)
      else
        let obj = target h JUndefined in
        case (if js_typeof \<sigma> obj = ''object'' then get_prop \<sigma> obj k else Inr JUndefined) of
          Inl e \<Rightarrow> (Inl e, \<sigma>)
        | Inr v \<Rightarrow> (Inr (Handle (oc v (LKey k))), \<sigma>))"

section \<open>Chains\<close>

text \<open>
  A chain of lookups \<open>oc(x).k1.k2...kn\<close> on data reads one key after the other, each
  from the handle the previous read gave, in the heap the previous read left. After
  \<open>_err\<close> the expression holds the strict-check function and the chain of lookups has
  ended; \<open>Host_Read\<close> says that keys were left to read. What the expression does with
  them is in \<open>chain_host\<close>, below.
\<close>

datatype 'a outcome = Returns 'a | Throws fault | Host_Read

fun lookups :: "handle \<Rightarrow> key list \<Rightarrow> heap \<Rightarrow> member outcome \<times> heap" where
  "lookups h [] \<sigma> = (Returns (Handle h), \<sigma>)"
| "lookups h (k # ks) \<sigma> =
     (case get h k \<sigma> of
        (Inl e, \<sigma>') \<Rightarrow> (Throws e, \<sigma>')
      | (Inr (Handle h'), \<sigma>') \<Rightarrow> lookups h' ks \<sigma>'
      | (Inr (StrictCheck c), \<sigma>') \<Rightarrow> (if ks = [] then (Returns (StrictCheck c), \<sigma>') else (Host_Read, \<sigma>')))"

text \<open>Calling what a chain gave with no argument.\<close>

fun call0 :: "member \<Rightarrow> fault + jsval" where
  "call0 (Handle h) = Inr (target h JUndefined)"
| "call0 (StrictCheck h) = err h None"

text \<open>\<open>oc(x).k1.k2...kn()\<close>\<close>

definition resolve :: "jsval \<Rightarrow> key list \<Rightarrow> heap \<Rightarrow> jsval outcome" where
  "resolve x p \<sigma> =
     (case fst (lookups (oc x NoLabel) p \<sigma>) of
        Returns m \<Rightarrow> (case call0 m of Inl e \<Rightarrow> Throws e | Inr v \<Rightarrow> Returns v)
      | Throws e \<Rightarrow> Throws e
      | Host_Read \<Rightarrow> Host_Read)"

section \<open>Direct access\<close>

text \<open>
  A structured value is of mapping or sequence kind: a reference to an object that is not
  a function.
\<close>

fun structured :: "heap \<Rightarrow> jsval \<Rightarrow> bool" where
  "structured \<sigma> (JRef a) = (case \<sigma> a of Function ps \<Rightarrow> False | _ \<Rightarrow> True)"
| "structured \<sigma> v = False"

text \<open>
  The guarded direct access \<open>x.p1.p2...pn\<close>: each key is read only if the container is
  present and structured, and the access is \<open>undefined\<close> otherwise.
\<close>

fun direct :: "heap \<Rightarrow> jsval \<Rightarrow> key list \<Rightarrow> jsval" where
  "direct \<sigma> v [] = v"
| "direct \<sigma> (JRef a) (k # ks) =
     (if structured \<sigma> (JRef a) then direct \<sigma> (obj_get (\<sigma> a) k) ks else JUndefined)"
| "direct \<sigma> v (k # ks) = JUndefined"


section \<open>The trap in a host with accessors\<close>

text \<open>
  \<open>obj[key]\<close> of line 47 is the property read of the host. Where the property is an
  accessor property, or the object a proxy, the read calls a function of the data with the
  object as \<open>this\<close>; the function may throw and may assign. A host gives the accessors
  of the objects, by address and key, and what a read of a key of the strict-check function
  gives, an ordinary function object of the host.
\<close>

type_synonym getter = "addr \<Rightarrow> heap \<Rightarrow> (fault + jsval) \<times> heap"

record host =
  accessor :: "addr \<Rightarrow> key \<Rightarrow> getter option"
  function_prop :: "key \<Rightarrow> fault + jsval"

definition host_read :: "host \<Rightarrow> heap \<Rightarrow> jsval \<Rightarrow> key \<Rightarrow> (fault + jsval) \<times> heap" where
  "host_read H \<sigma> v k =
     (case v of
        JRef a \<Rightarrow> (case accessor H a k of Some g \<Rightarrow> g a \<sigma> | None \<Rightarrow> (get_prop \<sigma> v k, \<sigma>))
      | _ \<Rightarrow> (get_prop \<sigma> v k, \<sigma>))"

text \<open>The \<open>get\<close> trap, line for line, over the read of the host.\<close>

definition get_host :: "host \<Rightarrow> handle \<Rightarrow> key \<Rightarrow> heap \<Rightarrow> (fault + member) \<times> heap" where
  "get_host H h k \<sigma> =
     (if k = KStr ''_err'' then (Inr (StrictCheck h), \<sigma>)
      else
        let obj = target h JUndefined in
        case (if js_typeof \<sigma> obj = ''object'' then host_read H \<sigma> obj k else (Inr JUndefined, \<sigma>)) of
          (Inl e, \<sigma>') \<Rightarrow> (Inl e, \<sigma>')
        | (Inr v, \<sigma>') \<Rightarrow> (Inr (Handle (oc v (LKey k))), \<sigma>'))"

text \<open>
  The expression \<open>oc(x).k1.k2...kn\<close> in full. It holds a handle, the strict-check
  function, or, after a read from the strict-check function, a value of the host; a key
  is read from a handle by the trap, from the strict-check function and from a value by
  the host.
\<close>

datatype place = Member member | Host jsval

fun step_host :: "host \<Rightarrow> place \<Rightarrow> key \<Rightarrow> heap \<Rightarrow> (fault + place) \<times> heap" where
  "step_host H (Member (Handle h)) k \<sigma> =
     (case get_host H h k \<sigma> of (Inl e, \<sigma>') \<Rightarrow> (Inl e, \<sigma>') | (Inr m, \<sigma>') \<Rightarrow> (Inr (Member m), \<sigma>'))"
| "step_host H (Member (StrictCheck h)) k \<sigma> =
     (case function_prop H k of Inl e \<Rightarrow> (Inl e, \<sigma>) | Inr v \<Rightarrow> (Inr (Host v), \<sigma>))"
| "step_host H (Host v) k \<sigma> =
     (case host_read H \<sigma> v k of (Inl e, \<sigma>') \<Rightarrow> (Inl e, \<sigma>') | (Inr w, \<sigma>') \<Rightarrow> (Inr (Host w), \<sigma>'))"

fun chain_host :: "host \<Rightarrow> place \<Rightarrow> key list \<Rightarrow> heap \<Rightarrow> (fault + place) \<times> heap" where
  "chain_host H pl [] \<sigma> = (Inr pl, \<sigma>)"
| "chain_host H pl (k # ks) \<sigma> =
     (case step_host H pl k \<sigma> of (Inl e, \<sigma>') \<Rightarrow> (Inl e, \<sigma>') | (Inr pl', \<sigma>') \<Rightarrow> chain_host H pl' ks \<sigma>')"

section \<open>Example data\<close>

text \<open>
  The object of the sanity checks of the test suite,
  \<open>{a: 'hello', b: {d: 'world'}, c: [-100, 200, -300], d: null, e: {f: false}}\<close>,
  at address 0, and a function with a property at address 4.
\<close>

definition example_heap :: heap where
  "example_heap =
     (\<lambda>a. Plain [])
       (0 := Plain [(KStr ''a'', JStr ''hello''), (KStr ''b'', JRef 1), (KStr ''c'', JRef 2),
                    (KStr ''d'', JNull), (KStr ''e'', JRef 3)],
        1 := Plain [(KStr ''d'', JStr ''world'')],
        2 := Array [JNum (- 100), JNum 200, JNum (- 300)] [],
        3 := Plain [(KStr ''f'', JBool False)],
        4 := Function [(KStr ''name'', JStr ''f'')])"

text \<open>An object with a data property of the name \<open>_err\<close>, \<open>{_err: 5}\<close>, at every address.\<close>

definition err_heap :: heap where
  "err_heap = (\<lambda>a. Plain [(KStr ''_err'', JNum 5)])"

text \<open>
  The strict-check function is \<open>function (errorMsg) { ... }\<close> of a strict-mode file: it
  has the length 1 and the empty name, a read of \<open>caller\<close> or \<open>arguments\<close> throws,
  and a key it does not have reads as \<open>undefined\<close>. The object under \<open>prototype\<close>
  and the methods it inherits are left out.
\<close>

definition strict_function_prop :: "key \<Rightarrow> fault + jsval" where
  "strict_function_prop k =
     (if k = KStr ''length'' then Inr (JNum 1)
      else if k = KStr ''name'' then Inr (JStr [])
      else if k = KStr ''caller'' \<or> k = KStr ''arguments'' then Inl TypeError
      else Inr JUndefined)"

text \<open>The host of data: no object has an accessor.\<close>

definition data_host :: host where
  "data_host = \<lparr>accessor = (\<lambda>a k. None), function_prop = strict_function_prop\<rparr>"

text \<open>
  \<open>{get a() { throw new Error('boom') }}\<close> at address 0 of a heap of empty objects.
\<close>

definition throwing_getter :: getter where
  "throwing_getter a \<sigma> = (Inl (Error ''boom''), \<sigma>)"

definition empty_heap :: heap where
  "empty_heap = (\<lambda>a. Plain [])"

definition throwing_host :: host where
  "throwing_host =
     \<lparr>accessor = (\<lambda>a k. if a = 0 \<and> k = KStr ''a'' then Some throwing_getter else None),
      function_prop = strict_function_prop\<rparr>"

text \<open>
  \<open>{n: 0, get a() { this.n++; return this.n }}\<close> at address 0. The getter is given
  where \<open>n\<close> is a number, as it is and stays in this object.
\<close>

definition counting_getter :: getter where
  "counting_getter a \<sigma> =
     (case \<sigma> a of
        Plain ps \<Rightarrow>
          (case prop_value ps (KStr ''n'') of
             JNum n \<Rightarrow> (Inr (JNum (n + 1)), \<sigma>(a := Plain ((KStr ''n'', JNum (n + 1)) # ps)))
           | _ \<Rightarrow> (Inr JUndefined, \<sigma>))
      | _ \<Rightarrow> (Inr JUndefined, \<sigma>))"

definition counter_heap :: heap where
  "counter_heap = (\<lambda>a. Plain [(KStr ''n'', JNum 0)])"

definition counting_host :: host where
  "counting_host =
     \<lparr>accessor = (\<lambda>a k. if a = 0 \<and> k = KStr ''a'' then Some counting_getter else None),
      function_prop = strict_function_prop\<rparr>"

section \<open>Basic facts of the operations\<close>

lemma typeof_object_structured:
  "js_typeof \<sigma> (target h JUndefined) = ''object'' \<longleftrightarrow> structured \<sigma> (data h)"
  by (cases "data h") (simp_all add: target_def split: obj.splits)

lemma get_prop_structured: "structured \<sigma> v \<Longrightarrow> get_prop \<sigma> v k = Inr (direct \<sigma> v [k])"
  by (cases v) simp_all

lemma structured_target: "structured \<sigma> (data h) \<Longrightarrow> target h JUndefined = data h"
  by (cases "data h") (simp_all add: target_def)

lemma get_reserved: "get h (KStr ''_err'') \<sigma> = (Inr (StrictCheck h), \<sigma>)"
  by (simp add: get_def)

lemma not_structured_direct: "\<not> structured \<sigma> v \<Longrightarrow> direct \<sigma> v (k # ks) = JUndefined"
  by (cases v) simp_all

lemma get_lookup:
  assumes "k \<noteq> KStr ''_err''"
  shows "get h k \<sigma> = (Inr (Handle (oc (direct \<sigma> (data h) [k]) (LKey k))), \<sigma>)"
proof (cases "structured \<sigma> (data h)")
  case True
  then have "js_typeof \<sigma> (target h JUndefined) = ''object''"
    and "get_prop \<sigma> (target h JUndefined) k = Inr (direct \<sigma> (data h) [k])"
    using typeof_object_structured [of \<sigma> h] structured_target [of \<sigma> h]
      get_prop_structured [of \<sigma> "data h" k] by simp_all
  then show ?thesis
    using assms unfolding get_def Let_def by simp
next
  case False
  then have "js_typeof \<sigma> (target h JUndefined) \<noteq> ''object''"
    and "direct \<sigma> (data h) [k] = JUndefined"
    using typeof_object_structured [of \<sigma> h] not_structured_direct [of \<sigma> "data h" k "[]"]
    by simp_all
  then show ?thesis
    using assms unfolding get_def Let_def by simp
qed

lemma get_heap: "snd (get h k \<sigma>) = \<sigma>"
  by (cases "k = KStr ''_err''") (simp_all add: get_reserved get_lookup)

lemma get_returns: "\<exists>m. get h k \<sigma> = (Inr m, \<sigma>)"
  by (cases "k = KStr ''_err''") (simp_all add: get_reserved get_lookup)

lemma direct_undefined: "direct \<sigma> JUndefined ks = JUndefined"
  by (cases ks) simp_all

lemma direct_absent: "eq_null v \<Longrightarrow> direct \<sigma> v (k # ks) = JUndefined"
  by (cases v) simp_all

lemma direct_append: "direct \<sigma> v (ks @ ks') = direct \<sigma> (direct \<sigma> v ks) ks'"
proof (induction ks arbitrary: v)
  case Nil
  show ?case by simp
next
  case (Cons k ks)
  show ?case
  proof (cases "structured \<sigma> v")
    case True
    then obtain a where "v = JRef a" by (cases v) simp_all
    with True Cons show ?thesis by simp
  next
    case False
    then show ?thesis by (simp add: not_structured_direct direct_undefined)
  qed
qed

lemma direct_Cons: "direct \<sigma> v (k # ks) = direct \<sigma> (direct \<sigma> v [k]) ks"
  using direct_append [of \<sigma> v "[k]" ks] by simp

lemma oc_handle: "oc (data h) (parentKey h) = h"
  by (simp add: oc_def)

lemma data_oc: "data (oc v pk) = v" and parentKey_oc: "parentKey (oc v pk) = pk"
  by (simp_all add: oc_def)

lemma lookups_Cons_lookup:
  "k \<noteq> KStr ''_err'' \<Longrightarrow>
   lookups h (k # ks) \<sigma> = lookups (oc (direct \<sigma> (data h) [k]) (LKey k)) ks \<sigma>"
  by (simp add: get_lookup)

lemma lookups_Cons_reserved:
  "lookups h (KStr ''_err'' # ks) \<sigma> =
     (if ks = [] then (Returns (StrictCheck h), \<sigma>) else (Host_Read, \<sigma>))"
  by (simp add: get_reserved)

declare lookups.simps(2) [simp del]

lemma lookups_handle:
  "KStr ''_err'' \<notin> set ks \<Longrightarrow>
   lookups h ks \<sigma> =
     (Returns (Handle (oc (direct \<sigma> (data h) ks) (if ks = [] then parentKey h else LKey (last ks)))), \<sigma>)"
proof (induction ks arbitrary: h)
  case Nil
  show ?case by (simp add: oc_handle)
next
  case (Cons k ks)
  then have k: "k \<noteq> KStr ''_err''" and ks: "KStr ''_err'' \<notin> set ks" by auto
  show ?case
    using Cons.IH [OF ks, of "oc (direct \<sigma> (data h) [k]) (LKey k)"] direct_Cons [of \<sigma> "data h" k ks]
    by (simp add: lookups_Cons_lookup [OF k] data_oc parentKey_oc)
qed

lemma lookups_absent:
  "eq_null (data h) \<Longrightarrow> fst (lookups h ks \<sigma>) = Returns m \<Longrightarrow> eq_null (data (handle_of m))"
proof (induction ks arbitrary: h)
  case Nil
  then show ?case by auto
next
  case (Cons k ks)
  show ?case
  proof (cases "k = KStr ''_err''")
    case True
    with Cons.prems show ?thesis by (auto simp add: lookups_Cons_reserved split: if_splits)
  next
    case False
    have "eq_null (data (oc (direct \<sigma> (data h) [k]) (LKey k)))"
      using Cons.prems(1) by (simp add: data_oc direct_absent)
    with Cons.IH Cons.prems(2) False show ?thesis by (simp add: lookups_Cons_lookup)
  qed
qed

subsection \<open>The trap in a host\<close>

text \<open>Where the property read is a data property, the trap is the trap on data.\<close>

lemma get_host_reserved: "get_host H h (KStr ''_err'') \<sigma> = (Inr (StrictCheck h), \<sigma>)"
  by (simp add: get_host_def)

lemma host_read_data:
  "(\<forall>a. v = JRef a \<longrightarrow> accessor H a k = None) \<Longrightarrow> host_read H \<sigma> v k = (get_prop \<sigma> v k, \<sigma>)"
  by (cases v) (simp_all add: host_read_def)

lemma get_host_not_structured:
  assumes "\<not> structured \<sigma> (data h)"
  shows "get_host H h k \<sigma> = get h k \<sigma>"
proof -
  from assms have "js_typeof \<sigma> (target h JUndefined) \<noteq> ''object''"
    using typeof_object_structured [of \<sigma> h] by simp
  then show ?thesis
    unfolding get_host_def get_def Let_def by simp
qed

lemma get_host_data:
  assumes "\<forall>a. data h = JRef a \<longrightarrow> accessor H a k = None"
  shows "get_host H h k \<sigma> = get h k \<sigma>"
proof (cases "structured \<sigma> (data h)")
  case True
  then have t: "target h JUndefined = data h" by (rule structured_target)
  with assms have "host_read H \<sigma> (target h JUndefined) k = (get_prop \<sigma> (target h JUndefined) k, \<sigma>)"
    by (simp add: host_read_data)
  then show ?thesis
    unfolding get_host_def get_def Let_def by (simp split: sum.splits)
next
  case False
  then show ?thesis by (rule get_host_not_structured)
qed

lemma get_host_absent: "eq_null (data h) \<Longrightarrow> get_host H h k \<sigma> = get h k \<sigma>"
  by (rule get_host_data) auto

lemma get_host_structured:
  assumes "k \<noteq> KStr ''_err''" and "structured \<sigma> (data h)"
  shows "get_host H h k \<sigma> =
     (case host_read H \<sigma> (data h) k of
        (Inl e, \<sigma>') \<Rightarrow> (Inl e, \<sigma>')
      | (Inr v, \<sigma>') \<Rightarrow> (Inr (Handle (oc v (LKey k))), \<sigma>'))"
proof -
  from assms(2) have "target h JUndefined = data h" by (rule structured_target)
  moreover from assms(2) have "js_typeof \<sigma> (target h JUndefined) = ''object''"
    using typeof_object_structured [of \<sigma> h] by simp
  ultimately show ?thesis
    using assms(1) unfolding get_host_def Let_def by simp
qed

lemma get_host_label:
  assumes "data h1 = data h2" and "k \<noteq> KStr ''_err''"
  shows "get_host H h1 k \<sigma> = get_host H h2 k \<sigma>"
  using assms unfolding get_host_def Let_def target_def by simp

lemma chain_host_append:
  "chain_host H pl (ks @ ks') \<sigma> =
     (case chain_host H pl ks \<sigma> of
        (Inl e, \<sigma>') \<Rightarrow> (Inl e, \<sigma>')
      | (Inr pl', \<sigma>') \<Rightarrow> chain_host H pl' ks' \<sigma>')"
  by (induction ks arbitrary: pl \<sigma>) (simp_all split: prod.splits sum.splits)

lemma chain_host_handle:
  assumes "\<And>a k. accessor H a k = None"
  shows "KStr ''_err'' \<notin> set ks \<Longrightarrow>
     chain_host H (Member (Handle h)) ks \<sigma> =
       (Inr (Member (Handle (oc (direct \<sigma> (data h) ks) (if ks = [] then parentKey h else LKey (last ks))))), \<sigma>)"
proof (induction ks arbitrary: h)
  case Nil
  show ?case by (simp add: oc_handle)
next
  case (Cons k ks)
  then have k: "k \<noteq> KStr ''_err''" and ks: "KStr ''_err'' \<notin> set ks" by auto
  have "get_host H h k \<sigma> = (Inr (Handle (oc (direct \<sigma> (data h) [k]) (LKey k))), \<sigma>)"
    using assms by (simp add: get_host_data get_lookup [OF k])
  then show ?case
    using Cons.IH [OF ks, of "oc (direct \<sigma> (data h) [k]) (LKey k)"] direct_Cons [of \<sigma> "data h" k ks]
    by (simp add: data_oc parentKey_oc)
qed

lemma chain_host_absent:
  "eq_null (data h) \<Longrightarrow> KStr ''_err'' \<notin> set ks \<Longrightarrow>
   \<exists>h'. chain_host H (Member (Handle h)) ks \<sigma> = (Inr (Member (Handle h')), \<sigma>) \<and> eq_null (data h')"
proof (induction ks arbitrary: h)
  case Nil
  then show ?case by simp
next
  case (Cons k ks)
  then have k: "k \<noteq> KStr ''_err''" and ks: "KStr ''_err'' \<notin> set ks" by auto
  have g: "get_host H h k \<sigma> = (Inr (Handle (oc JUndefined (LKey k))), \<sigma>)"
    using Cons.prems(1) by (simp add: get_host_absent get_lookup [OF k] direct_absent)
  have "eq_null (data (oc JUndefined (LKey k)))" by (simp add: data_oc)
  from Cons.IH [OF this ks] g show ?case by simp
qed

lemma step_host_heap:
  assumes "\<And>a k. accessor H a k = None"
  shows "snd (step_host H pl k \<sigma>) = \<sigma>"
proof (cases pl)
  case (Member m)
  then show ?thesis
    using assms by (cases m) (simp_all add: get_host_data get_heap split: prod.splits sum.splits,
      metis get_heap snd_conv)
next
  case (Host v)
  then show ?thesis using assms by (simp add: host_read_data split: sum.splits)
qed

lemma chain_host_heap:
  assumes "\<And>a k. accessor H a k = None"
  shows "snd (chain_host H pl ks \<sigma>) = \<sigma>"
proof (induction ks arbitrary: pl)
  case Nil
  show ?case by simp
next
  case (Cons k ks)
  show ?case
  proof (cases "step_host H pl k \<sigma>")
    case (Pair r \<sigma>')
    with step_host_heap [OF assms, of pl k \<sigma>] have "\<sigma>' = \<sigma>" by simp
    with Pair Cons.IH show ?thesis by (cases r) simp_all
  qed
qed

text \<open>
  In a host without accessors, what a chain of lookups on data returns is what the
  expression returns.
\<close>

lemma lookups_chain_host:
  assumes "\<And>a k. accessor H a k = None"
  shows "fst (lookups h ks \<sigma>) = Returns m \<Longrightarrow>
         chain_host H (Member (Handle h)) ks \<sigma> = (Inr (Member m), \<sigma>)"
proof (induction ks arbitrary: h)
  case Nil
  then show ?case by simp
next
  case (Cons k ks)
  show ?case
  proof (cases "k = KStr ''_err''")
    case True
    with Cons.prems show ?thesis
      by (auto simp add: lookups_Cons_reserved get_host_reserved split: if_splits)
  next
    case False
    have "get_host H h k \<sigma> = (Inr (Handle (oc (direct \<sigma> (data h) [k]) (LKey k))), \<sigma>)"
      using assms by (simp add: get_host_data get_lookup [OF False])
    with Cons False show ?thesis by (simp add: lookups_Cons_lookup)
  qed
qed

text \<open>
  The sanity checks of the test suite: \<open>x.a()\<close>, \<open>x.b.d()\<close>, \<open>x.c[0]()\<close>,
  \<open>x.c[100]()\<close>, \<open>x.c[100](1234)\<close>, \<open>x.d.e()\<close>,
  \<open>x.d.e('optional default value')\<close>, \<open>x.e.f()\<close> and
  \<open>x.y.z.a.b.c.d.e.f.g.h.i.j.k()\<close>.
\<close>

lemma sanity_checks:
  "resolve (JRef 0) [KStr ''a''] example_heap = Returns (JStr ''hello'')"
  "resolve (JRef 0) [KStr ''b'', KStr ''d''] example_heap = Returns (JStr ''world'')"
  "resolve (JRef 0) [KStr ''c'', KStr ''0''] example_heap = Returns (JNum (- 100))"
  "resolve (JRef 0) [KStr ''c'', KStr ''100''] example_heap = Returns JUndefined"
  "fst (lookups (oc (JRef 0) NoLabel) [KStr ''c'', KStr ''100''] example_heap)
     = Returns (Handle (oc JUndefined (LKey (KStr ''100''))))"
  "target (oc JUndefined (LKey (KStr ''100''))) (JNum 1234) = JNum 1234"
  "resolve (JRef 0) [KStr ''d'', KStr ''e''] example_heap = Returns JUndefined"
  "fst (lookups (oc (JRef 0) NoLabel) [KStr ''d'', KStr ''e''] example_heap)
     = Returns (Handle (oc JUndefined (LKey (KStr ''e''))))"
  "target (oc JUndefined (LKey (KStr ''e''))) (JStr ''optional default value'') = JStr ''optional default value''"
  "resolve (JRef 0) [KStr ''e'', KStr ''f''] example_heap = Returns (JBool False)"
  "resolve (JRef 0) (map (\<lambda>c. KStr [c]) ''yzabcdefghijk'') example_heap = Returns JUndefined"
  by (simp_all add: resolve_def lookups_handle data_oc target_def example_heap_def prop_value_def
        array_index_def show_nat.simps digit_def flip: upt_conv_Cons)



section \<open>Claims\<close>




text \<open>
  C2. For every wrapped value \<open>v\<close>: the terminal call with no argument returns
  \<open>v\<close> if \<open>v\<close> is present and \<open>undefined\<close> if it is absent; the terminal call
  with a default \<open>d\<close> that is not absent returns \<open>v\<close> if \<open>v\<close> is present and
  \<open>d\<close> otherwise; the present value \<open>false\<close> is returned, with and without a
  default.
\<close>

theorem terminal_call:
  "(\<not> eq_null v \<longrightarrow> target (oc v pk) JUndefined = v)
   \<and> (eq_null v \<longrightarrow> target (oc v pk) JUndefined = JUndefined)
   \<and> (\<not> eq_null d \<longrightarrow> (\<not> eq_null v \<longrightarrow> target (oc v pk) d = v) \<and> (eq_null v \<longrightarrow> target (oc v pk) d = d))
   \<and> target (oc (JBool False) pk) JUndefined = JBool False
   \<and> target (oc (JBool False) pk) d = JBool False"
  by (simp add: target_def data_oc)

text \<open>Witness of C2: a present string and an absent \<open>null\<close>, each with and without a default.\<close>

theorem terminal_call_witness:
  "\<not> eq_null (JStr ''hello'') \<and> \<not> eq_null (JNum 1234)
   \<and> target (oc (JStr ''hello'') NoLabel) JUndefined = JStr ''hello''
   \<and> target (oc (JStr ''hello'') NoLabel) (JNum 1234) = JStr ''hello''
   \<and> eq_null JNull
   \<and> target (oc JNull (LKey (KStr ''d''))) JUndefined = JUndefined
   \<and> target (oc JNull (LKey (KStr ''d''))) (JNum 1234) = JNum 1234"
  using terminal_call [of "JStr ''hello''" NoLabel "JNum 1234"]
    terminal_call [of JNull "LKey (KStr ''d'')" "JNum 1234"]
  by simp

text \<open>
  C3, as the code has it. For every handle: the strict check returns the wrapped value
  unchanged when it is present; when the wrapped value is absent it raises an error whose
  message is the caller's \<open>errorMessage\<close> if a non-empty one was given, and otherwise
  (no message, or the empty string) is the generated \<open>"<pathLabel> is not set"\<close>. The
  path label of a handle a lookup produced is the key of that lookup, a string key is
  rendered as itself, and with no label recorded the message is
  \<open>"undefined is not set"\<close>.
\<close>

theorem strict_check:
  "(\<not> eq_null (data h) \<longrightarrow> err h msg = Inr (data h))
   \<and> (eq_null (data h) \<and> m \<noteq> [] \<longrightarrow> err h (Some m) = Inl (Error m))
   \<and> (eq_null (data h) \<longrightarrow>
        err h None = Inl (Error (String_label (parentKey h) @ '' is not set''))
        \<and> err h (Some []) = Inl (Error (String_label (parentKey h) @ '' is not set'')))
   \<and> (k \<noteq> KStr ''_err'' \<longrightarrow> (\<exists>h'. get h k \<sigma> = (Inr (Handle h'), \<sigma>) \<and> parentKey h' = LKey k))
   \<and> String_label (LKey (KStr s)) = s
   \<and> (eq_null v \<longrightarrow> err (oc v NoLabel) None = Inl (Error ''undefined is not set''))"
  by (simp add: err_def get_lookup data_oc parentKey_oc)

text \<open>
  Witness of C3: the present \<open>false\<close>, the absent \<open>null\<close> under the key \<open>d\<close>
  with and without a message, the label of the handle \<open>oc(x).d\<close>, and the root
  \<open>oc(undefined)\<close>.
\<close>

theorem strict_check_witness:
  "\<not> eq_null (data (oc (JBool False) (LKey (KStr ''f''))))
   \<and> err (oc (JBool False) (LKey (KStr ''f''))) None = Inr (JBool False)
   \<and> eq_null (data (oc JNull (LKey (KStr ''d'')))) \<and> ''no d'' \<noteq> []
   \<and> err (oc JNull (LKey (KStr ''d''))) (Some ''no d'') = Inl (Error ''no d'')
   \<and> err (oc JNull (LKey (KStr ''d''))) None = Inl (Error ''d is not set'')
   \<and> KStr ''d'' \<noteq> KStr ''_err''
   \<and> (\<exists>h'. get (oc (JRef 0) NoLabel) (KStr ''d'') example_heap = (Inr (Handle h'), example_heap)
          \<and> parentKey h' = LKey (KStr ''d''))
   \<and> eq_null JUndefined
   \<and> err (oc JUndefined NoLabel) None = Inl (Error ''undefined is not set'')"
  using strict_check [of "oc (JBool False) (LKey (KStr ''f''))" None "''no d''" "KStr ''d''" example_heap "''d''" JUndefined]
    strict_check [of "oc JNull (LKey (KStr ''d''))" None "''no d''" "KStr ''d''" example_heap "''d''" JUndefined]
    strict_check [of "oc (JRef 0) NoLabel" None "''no d''" "KStr ''d''" example_heap "''d''" JUndefined]
  by (simp add: data_oc parentKey_oc)

text \<open>
  C3 as it is stated, the message is the caller's whenever one was given, fails at the
  empty message: \<open>oc(undefined, 'a')._err('')\<close> raises \<open>"a is not set"\<close>, as
  \<open>errorMsg || ...\<close> takes the empty string for no message.
\<close>

theorem strict_check_empty_message_counterexample:
  "eq_null (data (oc JUndefined (LKey (KStr ''a''))))
   \<and> err (oc JUndefined (LKey (KStr ''a''))) (Some '''') = Inl (Error ''a is not set'')
   \<and> err (oc JUndefined (LKey (KStr ''a''))) (Some '''') \<noteq> Inl (Error '''')"
  by (simp add: err_def data_oc parentKey_oc)

lemma call0_raises: "call0 m = Inl e \<Longrightarrow> \<exists>c. m = StrictCheck c \<and> eq_null (data c)"
  by (cases m) (simp_all add: err_def split: if_splits)

lemma err_raises: "(\<exists>e. err h msg = Inl e) \<longleftrightarrow> eq_null (data h)"
  by (simp add: err_def)

lemma get_host_returns:
  "accessor H = (\<lambda>a k. None) \<Longrightarrow> \<exists>m. get_host H h k \<sigma> = (Inr m, \<sigma>)"
  using get_returns [of h k \<sigma>] by (simp add: get_host_data)

lemma chain_host_handle_ex:
  "accessor H = (\<lambda>a k. None) \<Longrightarrow> KStr ''_err'' \<notin> set ks \<Longrightarrow>
   \<exists>h'. chain_host H (Member (Handle h)) ks \<sigma> = (Inr (Member (Handle h')), \<sigma>)"
  by (simp add: chain_host_handle)

lemma chain_host_past_absent:
  assumes "chain_host H (Member (Handle h)) ks \<sigma> = (Inr (Member (Handle hm)), \<sigma>1)"
    and "eq_null (data hm)" and "KStr ''_err'' \<notin> set ks'"
  shows "\<exists>h'. chain_host H (Member (Handle h)) (ks @ ks') \<sigma> = (Inr (Member (Handle h')), \<sigma>1)
           \<and> target h' JUndefined = JUndefined"
proof -
  from chain_host_absent [OF assms(2,3), of H \<sigma>1]
  obtain h' where "chain_host H (Member (Handle hm)) ks' \<sigma>1 = (Inr (Member (Handle h')), \<sigma>1)"
    and "eq_null (data h')" by blast
  with assms(1) show ?thesis by (simp add: chain_host_append target_def)
qed

text \<open>
  C4, as the code has it. On a source whose properties are data properties (no accessor
  and no proxy is run by a read), for every starting value, an absent one included, and
  every finite sequence of keys none of which is the reserved key \<open>_err\<close>, chaining
  that many lookups raises no fault and yields a handle; every single lookup returns there,
  and the lookup of \<open>_err\<close> returns in every host. In every host, once a chain has
  reached a handle with an absent value, every continuation by keys other than \<open>_err\<close>
  yields a handle whose terminal call with no argument is \<open>undefined\<close>. The terminal
  call is a value, and the only call that raises is the strict check, which raises exactly
  when its value is absent.
\<close>

theorem lookup_total_on_data:
  "get_host H h (KStr ''_err'') \<sigma> = (Inr (StrictCheck h), \<sigma>)
   \<and> (accessor H = (\<lambda>a k. None) \<longrightarrow> (\<exists>m. get_host H h k \<sigma> = (Inr m, \<sigma>)))
   \<and> (accessor H = (\<lambda>a k. None) \<and> KStr ''_err'' \<notin> set ks \<longrightarrow>
        (\<exists>h'. chain_host H (Member (Handle h)) ks \<sigma> = (Inr (Member (Handle h')), \<sigma>)))
   \<and> (chain_host H (Member (Handle h)) ks \<sigma> = (Inr (Member (Handle hm)), \<sigma>1)
        \<and> eq_null (data hm) \<and> KStr ''_err'' \<notin> set ks' \<longrightarrow>
        (\<exists>h'. chain_host H (Member (Handle h)) (ks @ ks') \<sigma> = (Inr (Member (Handle h')), \<sigma>1)
              \<and> target h' JUndefined = JUndefined))
   \<and> (call0 m = Inl e \<longrightarrow> (\<exists>c. m = StrictCheck c \<and> eq_null (data c)))
   \<and> ((\<exists>e'. err h msg = Inl e') \<longleftrightarrow> eq_null (data h))"
  using get_host_reserved [of H h \<sigma>] get_host_returns [of H h k \<sigma>] chain_host_handle_ex [of H ks h \<sigma>]
    chain_host_past_absent [of H h ks \<sigma> hm \<sigma>1 ks'] call0_raises [of m e] err_raises [of h msg]
  by blast

text \<open>
  Witness of C4: in the host of data \<open>oc(x).d\<close> wraps \<open>null\<close>, \<open>oc(x).d.e.f()\<close>
  is \<open>undefined\<close>, and \<open>oc(x).d._err()\<close> raises.
\<close>

theorem lookup_total_on_data_witness:
  "accessor data_host = (\<lambda>a k. None)
   \<and> KStr ''_err'' \<notin> set [KStr ''d'']
   \<and> chain_host data_host (Member (Handle (oc (JRef 0) NoLabel))) [KStr ''d''] example_heap
        = (Inr (Member (Handle (oc JNull (LKey (KStr ''d''))))), example_heap)
   \<and> eq_null (data (oc JNull (LKey (KStr ''d''))))
   \<and> KStr ''_err'' \<notin> set [KStr ''e'', KStr ''f'']
   \<and> (\<exists>h'. chain_host data_host (Member (Handle (oc (JRef 0) NoLabel))) ([KStr ''d''] @ [KStr ''e'', KStr ''f'']) example_heap
          = (Inr (Member (Handle h')), example_heap) \<and> target h' JUndefined = JUndefined)
   \<and> (\<exists>m. get_host data_host (oc (JRef 0) NoLabel) (KStr ''d'') example_heap = (Inr m, example_heap))
   \<and> call0 (StrictCheck (oc JNull (LKey (KStr ''d'')))) = Inl (Error ''d is not set'')
   \<and> (\<exists>c. StrictCheck (oc JNull (LKey (KStr ''d''))) = StrictCheck c \<and> eq_null (data c))"
proof -
  have a: "accessor data_host = (\<lambda>a k. None)" by (simp add: data_host_def)
  have b: "KStr ''_err'' \<notin> set [KStr ''d'']" by simp
  have c: "chain_host data_host (Member (Handle (oc (JRef 0) NoLabel))) [KStr ''d''] example_heap
        = (Inr (Member (Handle (oc JNull (LKey (KStr ''d''))))), example_heap)"
    using chain_host_handle [of data_host "[KStr ''d'']" "oc (JRef 0) NoLabel" example_heap] a
    by (simp del: chain_host.simps add: data_oc example_heap_def prop_value_def)
  have d: "eq_null (data (oc JNull (LKey (KStr ''d''))))" by (simp add: data_oc)
  have e: "KStr ''_err'' \<notin> set [KStr ''e'', KStr ''f'']" by simp
  have f: "call0 (StrictCheck (oc JNull (LKey (KStr ''d'')))) = Inl (Error ''d is not set'')"
    by (simp add: err_def data_oc parentKey_oc)
  note t = lookup_total_on_data [of data_host "oc (JRef 0) NoLabel" example_heap "KStr ''d''" "[KStr ''d'']"
      "oc JNull (LKey (KStr ''d''))" example_heap "[KStr ''e'', KStr ''f'']"
      "StrictCheck (oc JNull (LKey (KStr ''d'')))" "Error ''d is not set''" None]
  from t a have g: "\<exists>m. get_host data_host (oc (JRef 0) NoLabel) (KStr ''d'') example_heap = (Inr m, example_heap)"
    by blast
  from t c d e have i: "\<exists>h'. chain_host data_host (Member (Handle (oc (JRef 0) NoLabel))) ([KStr ''d''] @ [KStr ''e'', KStr ''f'']) example_heap
          = (Inr (Member (Handle h')), example_heap) \<and> target h' JUndefined = JUndefined"
    by blast
  from t f have j: "\<exists>c. StrictCheck (oc JNull (LKey (KStr ''d''))) = StrictCheck c \<and> eq_null (data c)"
    by blast
  from a b c d e i g f j show ?thesis by blast
qed

text \<open>
  C4 as it is stated, for every finite sequence of keys, fails twice. With \<open>_err\<close>
  before the end of the sequence: in \<open>oc(x)._err._err.k\<close> the second read is a read
  of the strict-check function, which has no such property, and the third is a read of
  \<open>undefined\<close>, a TypeError. With an accessor in the data: on
  \<open>{get a() { throw new Error('boom') }}\<close> the lookup \<open>oc(x).a\<close> runs the getter
  and raises its error.
\<close>

theorem lookup_raises_counterexample:
  "fst (chain_host data_host (Member (Handle (oc (JRef 0) NoLabel)))
          [KStr ''_err'', KStr ''_err'', KStr ''k''] err_heap) = Inl TypeError
   \<and> fst (get_host throwing_host (oc (JRef 0) NoLabel) (KStr ''a'') empty_heap) = Inl (Error ''boom'')"
  by (simp add: get_host_def host_read_def data_host_def strict_function_prop_def throwing_host_def
        throwing_getter_def empty_heap_def target_def data_oc)

lemma get_absent:
  "eq_null (data h) \<Longrightarrow> \<exists>m. get h k \<sigma> = (Inr m, \<sigma>) \<and> eq_null (data (handle_of m))"
  by (cases "k = KStr ''_err''") (simp_all add: get_reserved get_lookup data_oc direct_absent)

lemma lookups_absent_handle:
  assumes "eq_null (data h)" and "ks \<noteq> []" and "KStr ''_err'' \<notin> set ks"
  shows "fst (lookups h ks \<sigma>) = Returns (Handle (oc JUndefined (LKey (last ks))))"
proof -
  from assms(2) obtain k ks' where "ks = k # ks'" by (cases ks) auto
  with assms(1) have "direct \<sigma> (data h) ks = JUndefined" by (simp add: direct_absent)
  with assms(2,3) show ?thesis by (simp add: lookups_handle)
qed

text \<open>
  C5. For every handle whose wrapped value is absent and for every key, what the lookup of
  the key produces wraps an absent value again (for a key other than \<open>_err\<close> it is
  the handle of \<open>undefined\<close> labelled with the key; for \<open>_err\<close> it is the strict
  check of the same absent value), and so for every further lookup. From such a chain the
  terminal call returns exactly the default it is given and the strict check never returns
  a value: a result that is not absent is a default supplied at the terminal call.
\<close>

theorem absence_propagates:
  assumes "eq_null (data h)"
  shows "(\<exists>m. get h k \<sigma> = (Inr m, \<sigma>) \<and> eq_null (data (handle_of m)))
     \<and> (k \<noteq> KStr ''_err'' \<longrightarrow> get h k \<sigma> = (Inr (Handle (oc JUndefined (LKey k))), \<sigma>))
     \<and> (ks \<noteq> [] \<and> KStr ''_err'' \<notin> set ks \<longrightarrow>
          fst (lookups h ks \<sigma>) = Returns (Handle (oc JUndefined (LKey (last ks)))))
     \<and> (fst (lookups h ks \<sigma>) = Returns m \<longrightarrow>
          eq_null (data (handle_of m))
          \<and> target (handle_of m) d = d
          \<and> err (handle_of m) msg \<noteq> Inr v)"
proof -
  have "eq_null (data (handle_of m)) \<and> target (handle_of m) d = d \<and> err (handle_of m) msg \<noteq> Inr v"
    if "fst (lookups h ks \<sigma>) = Returns m"
  proof -
    from assms that have "eq_null (data (handle_of m))" by (rule lookups_absent)
    then show ?thesis by (simp add: target_def err_def)
  qed
  moreover have "get h k \<sigma> = (Inr (Handle (oc JUndefined (LKey k))), \<sigma>)" if "k \<noteq> KStr ''_err''"
    using that assms by (simp add: get_lookup direct_absent)
  ultimately show ?thesis
    using get_absent [OF assms, of k \<sigma>] lookups_absent_handle [OF assms, of ks \<sigma>]
    by blast
qed

text \<open>Witness of C5: from \<open>oc(x).d\<close>, which wraps \<open>null\<close>, the chain \<open>.e.f\<close>.\<close>

theorem absence_propagates_witness:
  "eq_null (data (oc JNull (LKey (KStr ''d''))))
   \<and> KStr ''e'' \<noteq> KStr ''_err''
   \<and> get (oc JNull (LKey (KStr ''d''))) (KStr ''e'') example_heap
       = (Inr (Handle (oc JUndefined (LKey (KStr ''e'')))), example_heap)
   \<and> [KStr ''e'', KStr ''f''] \<noteq> [] \<and> KStr ''_err'' \<notin> set [KStr ''e'', KStr ''f'']
   \<and> fst (lookups (oc JNull (LKey (KStr ''d''))) [KStr ''e'', KStr ''f''] example_heap)
       = Returns (Handle (oc JUndefined (LKey (KStr ''f''))))
   \<and> eq_null (data (handle_of (Handle (oc JUndefined (LKey (KStr ''f''))))))
   \<and> target (handle_of (Handle (oc JUndefined (LKey (KStr ''f''))))) (JStr ''fallback'') = JStr ''fallback''
   \<and> err (handle_of (Handle (oc JUndefined (LKey (KStr ''f''))))) None \<noteq> Inr JUndefined"
proof -
  have a: "eq_null (data (oc JNull (LKey (KStr ''d''))))" by (simp add: data_oc)
  from absence_propagates [OF a, of "KStr ''e''" example_heap "[KStr ''e'', KStr ''f'']"
      "Handle (oc JUndefined (LKey (KStr ''f'')))" "JStr ''fallback''" None JUndefined] a
  show ?thesis by simp
qed

text \<open>
  C6. The lookup of the key \<open>_err\<close> on any handle, in any heap, gives the strict check
  of that handle and never a handle. It does so on an object that has a data property of
  that name: for \<open>x = {_err: 5}\<close> the property read \<open>x['_err']\<close> is 5, and
  \<open>oc(x)._err\<close> is the strict check of \<open>x\<close>, which returns \<open>x\<close>.
\<close>

theorem reserved_key_intercepted:
  "get h (KStr ''_err'') \<sigma> = (Inr (StrictCheck h), \<sigma>)
   \<and> fst (get h (KStr ''_err'') \<sigma>) \<noteq> Inr (Handle h')
   \<and> call0 (StrictCheck h) = err h None
   \<and> get_prop err_heap (JRef 0) (KStr ''_err'') = Inr (JNum 5)
   \<and> get (oc (JRef 0) pk) (KStr ''_err'') err_heap = (Inr (StrictCheck (oc (JRef 0) pk)), err_heap)
   \<and> err (oc (JRef 0) pk) msg = Inr (JRef 0)"
  by (simp add: get_reserved err_heap_def prop_value_def err_def data_oc)

text \<open>
  C7. The lookup of \<open>length\<close> is the lookup of any other key, the handle of what the
  guarded read of that key gives: on an absent sequence it resolves to \<open>undefined\<close>,
  on a present sequence of \<open>N\<close> elements it resolves to \<open>N\<close>.
\<close>

theorem length_lookup:
  "get h (KStr ''length'') \<sigma> = (Inr (Handle (oc (direct \<sigma> (data h) [KStr ''length'']) (LKey (KStr ''length'')))), \<sigma>)
   \<and> (eq_null (data h) \<longrightarrow>
        (\<exists>h'. get h (KStr ''length'') \<sigma> = (Inr (Handle h'), \<sigma>) \<and> target h' JUndefined = JUndefined))
   \<and> (data h = JRef a \<and> \<sigma> a = Array xs ps \<longrightarrow>
        (\<exists>h'. get h (KStr ''length'') \<sigma> = (Inr (Handle h'), \<sigma>)
              \<and> target h' JUndefined = JNum (int (length xs))))"
  by (simp add: get_lookup direct_absent target_def data_oc)

text \<open>
  Witness of C7: \<open>oc(x).d.length()\<close> on the \<open>null\<close> of the test object, and
  \<open>oc(x).c.length()\<close> on its array of three elements.
\<close>

theorem length_lookup_witness:
  "eq_null (data (oc JNull (LKey (KStr ''d''))))
   \<and> (\<exists>h'. get (oc JNull (LKey (KStr ''d''))) (KStr ''length'') example_heap = (Inr (Handle h'), example_heap)
          \<and> target h' JUndefined = JUndefined)
   \<and> data (oc (JRef 2) (LKey (KStr ''c''))) = JRef 2
   \<and> example_heap 2 = Array [JNum (- 100), JNum 200, JNum (- 300)] []
   \<and> (\<exists>h'. get (oc (JRef 2) (LKey (KStr ''c''))) (KStr ''length'') example_heap = (Inr (Handle h'), example_heap)
          \<and> target h' JUndefined = JNum 3)"
proof -
  have a: "eq_null (data (oc JNull (LKey (KStr ''d''))))" by (simp add: data_oc)
  have b: "data (oc (JRef 2) (LKey (KStr ''c''))) = JRef 2" by (simp add: data_oc)
  have c: "example_heap 2 = Array [JNum (- 100), JNum 200, JNum (- 300)] []"
    by (simp add: example_heap_def)
  from a length_lookup [of "oc JNull (LKey (KStr ''d''))" example_heap 2 "[JNum (- 100), JNum 200, JNum (- 300)]" "[]"]
  have r1: "\<exists>h'. get (oc JNull (LKey (KStr ''d''))) (KStr ''length'') example_heap = (Inr (Handle h'), example_heap)
          \<and> target h' JUndefined = JUndefined"
    by blast
  from b c length_lookup [of "oc (JRef 2) (LKey (KStr ''c''))" example_heap 2 "[JNum (- 100), JNum 200, JNum (- 300)]" "[]"]
  have "\<exists>h'. get (oc (JRef 2) (LKey (KStr ''c''))) (KStr ''length'') example_heap = (Inr (Handle h'), example_heap)
          \<and> target h' JUndefined = JNum (int (length [JNum (- 100), JNum 200, JNum (- 300)]))"
    by blast
  then have r2: "\<exists>h'. get (oc (JRef 2) (LKey (KStr ''c''))) (KStr ''length'') example_heap = (Inr (Handle h'), example_heap)
          \<and> target h' JUndefined = JNum 3"
    by simp
  from a b c r1 r2 show ?thesis by blast
qed

text \<open>
  C8, as the code has it. A lookup of a key other than \<open>_err\<close> on a structured value
  is one property read of that value: its result is the handle of what the read gives,
  its fault and its heap are those of the read. The lookup of \<open>_err\<close> and a lookup on
  a value that is not structured read nothing and leave the heap as it is. The result of a
  lookup does not depend on the label of the handle read. Where the property read is a
  data property, the lookup leaves the heap unchanged and, repeated, gives the same result;
  in a host without accessors every chain leaves the heap unchanged. Nothing is
  remembered: when the object a handle refers to has been replaced in the heap, the lookup
  on the same handle reads the object that is there now.
\<close>

theorem lookup_frame_on_data:
  "(k \<noteq> KStr ''_err'' \<and> structured \<sigma> (data h) \<longrightarrow>
       get_host H h k \<sigma> =
         (case host_read H \<sigma> (data h) k of
            (Inl e, \<sigma>') \<Rightarrow> (Inl e, \<sigma>')
          | (Inr v, \<sigma>') \<Rightarrow> (Inr (Handle (oc v (LKey k))), \<sigma>')))
   \<and> (k = KStr ''_err'' \<or> \<not> structured \<sigma> (data h) \<longrightarrow> snd (get_host H h k \<sigma>) = \<sigma>)
   \<and> (data h1 = data h2 \<and> k \<noteq> KStr ''_err'' \<longrightarrow> get_host H h1 k \<sigma> = get_host H h2 k \<sigma>)
   \<and> ((\<forall>a. data h = JRef a \<longrightarrow> accessor H a k = None) \<longrightarrow>
        snd (get_host H h k \<sigma>) = \<sigma>
        \<and> get_host H h k (snd (get_host H h k \<sigma>)) = get_host H h k \<sigma>)
   \<and> (accessor H = (\<lambda>a k. None) \<longrightarrow> snd (chain_host H pl ks \<sigma>) = \<sigma>)
   \<and> (k \<noteq> KStr ''_err'' \<and> data h = JRef a \<and> accessor H a k = None \<longrightarrow>
        fst (get_host H h k (\<sigma>(a := Plain ps))) = Inr (Handle (oc (prop_value ps k) (LKey k))))"
proof -
  have 1: "snd (get_host H h k \<sigma>) = \<sigma>" if "k = KStr ''_err'' \<or> \<not> structured \<sigma> (data h)"
    using that by (auto simp add: get_host_reserved get_host_not_structured get_heap)
  have 2: "snd (get_host H h k \<sigma>) = \<sigma> \<and> get_host H h k (snd (get_host H h k \<sigma>)) = get_host H h k \<sigma>"
    if "\<forall>a. data h = JRef a \<longrightarrow> accessor H a k = None"
    using that by (simp add: get_host_data get_heap)
  have 3: "snd (chain_host H pl ks \<sigma>) = \<sigma>" if "accessor H = (\<lambda>a k. None)"
    using that by (intro chain_host_heap) simp
  have 4: "fst (get_host H h k (\<sigma>(a := Plain ps))) = Inr (Handle (oc (prop_value ps k) (LKey k)))"
    if "k \<noteq> KStr ''_err''" and "data h = JRef a" and "accessor H a k = None"
    using that by (simp add: get_host_data get_lookup)
  show ?thesis
    using get_host_structured [of k \<sigma> h H] get_host_label [of h1 h2 k H \<sigma>] 1 2 3 4
    by blast
qed

text \<open>
  Witness of C8: two handles on the object \<open>{d: 'world'}\<close> with different labels give
  the same result for \<open>d\<close>; the chain \<open>oc(x).b.d\<close> leaves the heap; after \<open>d\<close>
  has been set to 7 the same handle gives the handle of 7; and a lookup on the handle of
  \<open>null\<close> leaves the heap in a host with a getter.
\<close>

theorem lookup_frame_on_data_witness:
  "KStr ''d'' \<noteq> KStr ''_err'' \<and> structured example_heap (data (oc (JRef 1) (LKey (KStr ''b''))))
   \<and> data (oc (JRef 1) NoLabel) = data (oc (JRef 1) (LKey (KStr ''b'')))
   \<and> accessor data_host = (\<lambda>a k. None)
   \<and> data (oc (JRef 1) (LKey (KStr ''b''))) = JRef 1 \<and> accessor data_host 1 (KStr ''d'') = None
   \<and> get_host data_host (oc (JRef 1) NoLabel) (KStr ''d'') example_heap
        = get_host data_host (oc (JRef 1) (LKey (KStr ''b''))) (KStr ''d'') example_heap
   \<and> get_host data_host (oc (JRef 1) (LKey (KStr ''b''))) (KStr ''d'') example_heap
        = (Inr (Handle (oc (JStr ''world'') (LKey (KStr ''d'')))), example_heap)
   \<and> snd (chain_host data_host (Member (Handle (oc (JRef 0) NoLabel))) [KStr ''b'', KStr ''d''] example_heap)
        = example_heap
   \<and> fst (get_host data_host (oc (JRef 1) (LKey (KStr ''b''))) (KStr ''d'')
            (example_heap(1 := Plain [(KStr ''d'', JNum 7)])))
        = Inr (Handle (oc (JNum 7) (LKey (KStr ''d''))))
   \<and> \<not> structured example_heap (data (oc JNull (LKey (KStr ''d''))))
   \<and> snd (get_host counting_host (oc JNull (LKey (KStr ''d''))) (KStr ''a'') example_heap) = example_heap"
proof -
  have a: "KStr ''d'' \<noteq> KStr ''_err''" by simp
  have b: "structured example_heap (data (oc (JRef 1) (LKey (KStr ''b''))))"
    by (simp add: data_oc example_heap_def)
  have c: "data (oc (JRef 1) NoLabel) = data (oc (JRef 1) (LKey (KStr ''b'')))" by (simp add: data_oc)
  have d: "accessor data_host = (\<lambda>a k. None)" by (simp add: data_host_def)
  then have e: "\<forall>a. data (oc (JRef 1) (LKey (KStr ''b''))) = JRef a \<longrightarrow> accessor data_host a (KStr ''d'') = None"
    and f: "accessor data_host 1 (KStr ''d'') = None"
    by simp_all
  have g: "data (oc (JRef 1) (LKey (KStr ''b''))) = JRef 1" by (simp add: data_oc)
  have h: "\<not> structured example_heap (data (oc JNull (LKey (KStr ''d''))))" by (simp add: data_oc)
  note t = lookup_frame_on_data [of "KStr ''d''" example_heap "oc (JRef 1) (LKey (KStr ''b''))" data_host
      "oc (JRef 1) NoLabel" "oc (JRef 1) (LKey (KStr ''b''))" "Member (Handle (oc (JRef 0) NoLabel))"
      "[KStr ''b'', KStr ''d'']" 1 "[(KStr ''d'', JNum 7)]"]
  note u = lookup_frame_on_data [of "KStr ''a''" example_heap "oc JNull (LKey (KStr ''d''))" counting_host
      "oc (JRef 1) NoLabel" "oc (JRef 1) (LKey (KStr ''b''))" "Member (Handle (oc (JRef 0) NoLabel))"
      "[KStr ''b'', KStr ''d'']" 1 "[(KStr ''d'', JNum 7)]"]
  from t a b have r1: "get_host data_host (oc (JRef 1) (LKey (KStr ''b''))) (KStr ''d'') example_heap
        = (Inr (Handle (oc (JStr ''world'') (LKey (KStr ''d'')))), example_heap)"
    using f g by (simp add: host_read_def example_heap_def prop_value_def)
  from t a c have r2: "get_host data_host (oc (JRef 1) NoLabel) (KStr ''d'') example_heap
        = get_host data_host (oc (JRef 1) (LKey (KStr ''b''))) (KStr ''d'') example_heap"
    by blast
  from t d have r3: "snd (chain_host data_host (Member (Handle (oc (JRef 0) NoLabel))) [KStr ''b'', KStr ''d''] example_heap)
        = example_heap"
    by blast
  from t a g f have r4: "fst (get_host data_host (oc (JRef 1) (LKey (KStr ''b''))) (KStr ''d'')
            (example_heap(1 := Plain [(KStr ''d'', JNum 7)])))
        = Inr (Handle (oc (JNum 7) (LKey (KStr ''d''))))"
    by (simp add: prop_value_def)
  from u h have r5: "snd (get_host counting_host (oc JNull (LKey (KStr ''d''))) (KStr ''a'') example_heap) = example_heap"
    by blast
  from t e have r6: "snd (get_host data_host (oc (JRef 1) (LKey (KStr ''b''))) (KStr ''d'') example_heap) = example_heap"
    and r7: "get_host data_host (oc (JRef 1) (LKey (KStr ''b''))) (KStr ''d'')
               (snd (get_host data_host (oc (JRef 1) (LKey (KStr ''b''))) (KStr ''d'') example_heap))
             = get_host data_host (oc (JRef 1) (LKey (KStr ''b''))) (KStr ''d'') example_heap"
    by blast+
  from a b c d f g h r1 r2 r3 r4 r5 show ?thesis by blast
qed

text \<open>
  C8 as it is stated, every operation leaves the source unchanged and a repeated lookup
  resolves to the same value, fails on \<open>{n: 0, get a() { this.n++; return this.n }}\<close>:
  the first lookup of \<open>a\<close> gives 1 and sets \<open>n\<close> to 1, the second, on the same
  handle, gives 2.
\<close>

theorem lookup_runs_accessor_counterexample:
  "fst (get_host counting_host (oc (JRef 0) NoLabel) (KStr ''a'') counter_heap)
     = Inr (Handle (oc (JNum 1) (LKey (KStr ''a''))))
   \<and> fst (get_host counting_host (oc (JRef 0) NoLabel) (KStr ''a'')
            (snd (get_host counting_host (oc (JRef 0) NoLabel) (KStr ''a'') counter_heap)))
     = Inr (Handle (oc (JNum 2) (LKey (KStr ''a''))))
   \<and> obj_get (counter_heap 0) (KStr ''n'') = JNum 0
   \<and> obj_get (snd (get_host counting_host (oc (JRef 0) NoLabel) (KStr ''a'') counter_heap) 0) (KStr ''n'')
     = JNum 1"
  by (simp add: get_host_def host_read_def counting_host_def counting_getter_def counter_heap_def
        target_def data_oc prop_value_def)

lemma typeof_not_object:
  "js_typeof \<sigma> (data h) \<noteq> ''object'' \<Longrightarrow> \<not> structured \<sigma> (data h)"
  by (cases "data h") (simp_all split: obj.splits)

text \<open>
  C9. For every handle that wraps a function and every key other than \<open>_err\<close>, the
  lookup yields the handle of \<open>undefined\<close>, though \<open>typeof\<close> of the value is
  \<open>'function'\<close> and the property read of the function would give its property. The
  same holds of every value whose \<open>typeof\<close> is not \<open>'object'\<close>, so of a string,
  whose own \<open>length\<close> the property read would give.
\<close>

theorem function_not_structured:
  "(k \<noteq> KStr ''_err'' \<and> data h = JRef a \<and> \<sigma> a = Function ps \<longrightarrow>
      js_typeof \<sigma> (data h) = ''function''
      \<and> get_prop \<sigma> (data h) k = Inr (prop_value ps k)
      \<and> get h k \<sigma> = (Inr (Handle (oc JUndefined (LKey k))), \<sigma>))
   \<and> (k \<noteq> KStr ''_err'' \<and> js_typeof \<sigma> (data h) \<noteq> ''object'' \<longrightarrow>
      get h k \<sigma> = (Inr (Handle (oc JUndefined (LKey k))), \<sigma>))
   \<and> (k \<noteq> KStr ''_err'' \<and> data h = JStr s \<longrightarrow>
      get_prop \<sigma> (data h) (KStr ''length'') = Inr (JNum (int (length s)))
      \<and> get h k \<sigma> = (Inr (Handle (oc JUndefined (LKey k))), \<sigma>))"
proof -
  have "get h k \<sigma> = (Inr (Handle (oc JUndefined (LKey k))), \<sigma>)"
    if "k \<noteq> KStr ''_err''" and "js_typeof \<sigma> (data h) \<noteq> ''object''"
    using that typeof_not_object [of \<sigma> h] by (simp add: get_lookup not_structured_direct)
  then show ?thesis by auto
qed

text \<open>
  Witness of C9: the function at address 4 with its property \<open>name\<close>, and the string
  \<open>'hello'\<close> with its \<open>length\<close>.
\<close>

theorem function_not_structured_witness:
  "KStr ''name'' \<noteq> KStr ''_err'' \<and> data (oc (JRef 4) NoLabel) = JRef 4
   \<and> example_heap 4 = Function [(KStr ''name'', JStr ''f'')]
   \<and> js_typeof example_heap (data (oc (JRef 4) NoLabel)) = ''function''
   \<and> js_typeof example_heap (data (oc (JRef 4) NoLabel)) \<noteq> ''object''
   \<and> get_prop example_heap (data (oc (JRef 4) NoLabel)) (KStr ''name'') = Inr (JStr ''f'')
   \<and> get (oc (JRef 4) NoLabel) (KStr ''name'') example_heap = (Inr (Handle (oc JUndefined (LKey (KStr ''name'')))), example_heap)
   \<and> KStr ''length'' \<noteq> KStr ''_err'' \<and> data (oc (JStr ''hello'') (LKey (KStr ''a''))) = JStr ''hello''
   \<and> get_prop example_heap (data (oc (JStr ''hello'') (LKey (KStr ''a'')))) (KStr ''length'') = Inr (JNum 5)
   \<and> get (oc (JStr ''hello'') (LKey (KStr ''a''))) (KStr ''length'') example_heap
        = (Inr (Handle (oc JUndefined (LKey (KStr ''length'')))), example_heap)"
proof -
  have a: "data (oc (JRef 4) NoLabel) = JRef 4" by (simp add: data_oc)
  have b: "example_heap 4 = Function [(KStr ''name'', JStr ''f'')]" by (simp add: example_heap_def)
  have c: "data (oc (JStr ''hello'') (LKey (KStr ''a''))) = JStr ''hello''" by (simp add: data_oc)
  from a b c
    function_not_structured [of "KStr ''name''" "oc (JRef 4) NoLabel" 4 example_heap "[(KStr ''name'', JStr ''f'')]" "''hello''"]
    function_not_structured [of "KStr ''length''" "oc (JStr ''hello'') (LKey (KStr ''a''))" 4 example_heap "[(KStr ''name'', JStr ''f'')]" "''hello''"]
  show ?thesis by (simp add: prop_value_def)
qed

lemma typeof_object_ref:
  "js_typeof \<sigma> (target h JUndefined) = ''object'' \<Longrightarrow>
   \<exists>a. target h JUndefined = JRef a \<and> get_prop \<sigma> (target h JUndefined) k = Inr (obj_get (\<sigma> a) k)"
  by (cases "data h") (simp_all add: target_def)

text \<open>
  C10. \<open>typeof null\<close> is \<open>'object'\<close> and a property read of \<open>null\<close> throws; the
  call of the target with no argument turns the wrapped \<open>null\<close> into
  \<open>undefined\<close> before the test, so the test fails and the lookup on \<open>null\<close>
  yields the handle of \<open>undefined\<close>. On any handle, when the test passes the value
  read from is a reference to an object and the read returns; every lookup returns.
\<close>

theorem lookup_never_reads_null:
  "js_typeof \<sigma> JNull = ''object''
   \<and> get_prop \<sigma> JNull k = Inl TypeError
   \<and> target (oc JNull pk) JUndefined = JUndefined
   \<and> js_typeof \<sigma> (target (oc JNull pk) JUndefined) \<noteq> ''object''
   \<and> (k \<noteq> KStr ''_err'' \<longrightarrow> get (oc JNull pk) k \<sigma> = (Inr (Handle (oc JUndefined (LKey k))), \<sigma>))
   \<and> (js_typeof \<sigma> (target h JUndefined) = ''object'' \<longrightarrow>
        (\<exists>a. target h JUndefined = JRef a \<and> get_prop \<sigma> (target h JUndefined) k = Inr (obj_get (\<sigma> a) k)))
   \<and> (\<exists>m. get h k \<sigma> = (Inr m, \<sigma>))"
  using typeof_object_ref [of \<sigma> h k] get_returns [of h k \<sigma>]
  by (simp add: target_def data_oc get_lookup direct_absent)

text \<open>
  Witness of C10: \<open>oc(x).d.e\<close> on the \<open>null\<close> of the test object, and the read of
  \<open>f\<close> through the handle of the object \<open>{f: false}\<close>.
\<close>

theorem lookup_never_reads_null_witness:
  "KStr ''e'' \<noteq> KStr ''_err''
   \<and> get (oc JNull (LKey (KStr ''d''))) (KStr ''e'') example_heap
        = (Inr (Handle (oc JUndefined (LKey (KStr ''e'')))), example_heap)
   \<and> js_typeof example_heap (target (oc (JRef 3) (LKey (KStr ''e''))) JUndefined) = ''object''
   \<and> target (oc (JRef 3) (LKey (KStr ''e''))) JUndefined = JRef 3
   \<and> get_prop example_heap (target (oc (JRef 3) (LKey (KStr ''e''))) JUndefined) (KStr ''f'') = Inr (JBool False)"
proof -
  have a: "target (oc (JRef 3) (LKey (KStr ''e''))) JUndefined = JRef 3"
    by (simp add: target_def data_oc)
  then have b: "js_typeof example_heap (target (oc (JRef 3) (LKey (KStr ''e''))) JUndefined) = ''object''"
    by (simp add: example_heap_def)
  from a b
    lookup_never_reads_null [of example_heap "KStr ''e''" "LKey (KStr ''d'')" "oc (JRef 3) (LKey (KStr ''e''))"]
    lookup_never_reads_null [of example_heap "KStr ''f''" "LKey (KStr ''d'')" "oc (JRef 3) (LKey (KStr ''e''))"]
  show ?thesis by (simp add: example_heap_def prop_value_def)
qed

end
